theory Spec2Isabelle
  imports Complex_Main "HOL-Library.Char_ord" "HOL-Library.List_Lexorder"
begin

section \<open>JavaScript values\<close>

text \<open>
  JSON values, for the parts of a request that the code passes on without looking
  inside.
\<close>

datatype jsval =
    JNull
  | JBool bool
  | JNum real
  | JStr string
  | JArr "jsval list"
  | JObj "(string \<times> jsval) list"



text \<open>
  What the handlers throw: a property read on \<open>null\<close>, a value that Mongoose cannot cast
  to the type of its path in a query, a document that \<open>save()\<close> rejects (a failed cast
  or a failed validator), and \<open>new Error('User not found')\<close>.
\<close>

datatype error = TypeError | CastError | ValidationError | UserNotFound

text \<open>Decimal digits of a natural number, and the number a string of digits denotes.\<close>

fun showNat :: "nat \<Rightarrow> string" where
  "showNat n =
     (if n < 10 then [''0123456789'' ! n]
      else showNat (n div 10) @ [''0123456789'' ! (n mod 10)])"

definition digitValue :: "char \<Rightarrow> nat option" where
  "digitValue c = map_of (zip ''0123456789'' [0, 1, 2, 3, 4, 5, 6, 7, 8, 9]) c"

fun readDigits :: "nat \<Rightarrow> string \<Rightarrow> nat option" where
  "readDigits acc [] = Some acc"
| "readDigits acc (c # cs) =
     (case digitValue c of None \<Rightarrow> None | Some d \<Rightarrow> readDigits (10 * acc + d) cs)"

text \<open>
  The operations on JavaScript numbers that the model leaves open: the sum of two
  numbers (an IEEE 754 double), the text of a number as \<open>+\<close> with a string produces it,
  and the number Mongoose casts a string to when it is assigned to a \<open>Number\<close> path
  (\<open>None\<close> when the cast fails). Every theorem below holds for all three functions.
\<close>

record numbers =
  num_plus :: "real \<Rightarrow> real \<Rightarrow> real"
  num_text :: "real \<Rightarrow> string"
  num_cast :: "string \<Rightarrow> real option"

text \<open>
  The three operations on natural numbers and on strings of decimal digits, where the
  sum is exact: \<open>String(10)\<close> is \<open>'10'\<close> and \<open>Number('1045')\<close> is 1045. The concrete
  clusters below use them on such values only.
\<close>

definition decimalNumbers :: numbers where
  "decimalNumbers =
     \<lparr> num_plus = (\<lambda>a b. a + b),
       num_text = (\<lambda>a. showNat (nat \<lfloor>a\<rfloor>)),
       num_cast = (\<lambda>s. if s = [] then None else map_option real (readDigits 0 s)) \<rparr>"

section \<open>Disease outbreak clusters (models/DiseaseOutbreak, routes/outbreaks)\<close>

text \<open>
  The Mongoose schema of a disease outbreak, its instance methods and the handlers of
  the outbreak routes. Times are milliseconds since the epoch (\<open>new Date()\<close> is the
  parameter \<open>now\<close>), areas are numbers of acres, user ids are natural numbers.
\<close>

datatype severity = Low | Medium | High | Critical

text \<open>The position of a level in the schema's enum \<open>['low', 'medium', 'high', 'critical']\<close>.\<close>

fun rank :: "severity \<Rightarrow> nat" where
  "rank Low = 0"
| "rank Medium = 1"
| "rank High = 2"
| "rank Critical = 3"

datatype status = Active | Contained | Resolved

text \<open>
  The \<open>affectedArea\<close> of a request body that passed \<open>isFloat({ min: 0 })\<close>: the
  validator checks the value and does not convert it, so the handler holds a JSON
  number, or a JSON string in the syntax of a float.
\<close>

datatype areaValue = AreaNumber real | AreaString string

text \<open>
  One element of \<open>reportedBy\<close>, as the handler passes it. \<open>r_affectedArea\<close> is \<open>None\<close>
  when the report carries no area (\<open>undefined\<close>).
\<close>

record report =
  r_userId :: nat
  r_severity :: severity
  r_affectedArea :: "areaValue option"
  r_images :: "string list"
  r_notes :: string

record treatment =
  t_treatment :: string
  t_dosage :: "string option"
  t_frequency :: "string option"
  t_duration :: "string option"
  t_recommendedBy :: nat

record alert =
  a_alertType :: string
  a_recipients :: nat
  a_message :: string

text \<open>The paths of the schema that the handlers read or write.\<close>

record outbreak =
  disease :: string
  crop :: string
  latitude :: real
  longitude :: real
  address :: string
  region :: string
  reportedBy :: "report list"
  severity :: severity
  status :: status
  affectedArea :: real
  confirmedCases :: nat
  firstReported :: int
  lastUpdated :: int
  treatmentRecommendations :: "treatment list"
  alertsSent :: "alert list"

text \<open>
  \<open>reportData.affectedArea || 0\<close>: an absent area, the number 0 and the empty string
  give the number 0.
\<close>

definition areaOrZero :: "areaValue option \<Rightarrow> areaValue" where
  "areaOrZero a =
     (case a of
        None \<Rightarrow> AreaNumber 0
      | Some (AreaNumber x) \<Rightarrow> (if x = 0 then AreaNumber 0 else AreaNumber x)
      | Some (AreaString s) \<Rightarrow> (if s = [] then AreaNumber 0 else AreaString s))"

text \<open>
  \<open>this.affectedArea += v\<close>: for a number the sum; for a string the text of the area
  followed by the string, which the setter of the path casts back to a number. When
  that cast fails the path keeps no new value and \<open>save()\<close> rejects the document.
\<close>

definition plusAssign :: "numbers \<Rightarrow> real \<Rightarrow> areaValue \<Rightarrow> real option" where
  "plusAssign js a v =
     (case v of
        AreaNumber x \<Rightarrow> Some (num_plus js a x)
      | AreaString s \<Rightarrow> num_cast js (num_text js a @ s))"

text \<open>
  The \<open>if / else if / else if\<close> chain of \<open>addReport\<close>: the level the thresholds give,
  \<open>None\<close> when no branch is taken and the severity is left as it is.
\<close>

definition thresholdSeverity :: "nat \<Rightarrow> real \<Rightarrow> severity option" where
  "thresholdSeverity cases area =
     (if cases \<ge> 20 \<or> area \<ge> 500 then Some Critical
      else if cases \<ge> 10 \<or> area \<ge> 200 then Some High
      else if cases \<ge> 5 \<or> area \<ge> 50 then Some Medium
      else None)"

text \<open>
  \<open>diseaseOutbreakSchema.methods.addReport\<close> on the handler's copy of the document:
  the copy that \<open>save()\<close> writes, or the error with which \<open>save()\<close> rejects. \<open>valid\<close>
  stands for the casts and validators of the schema that \<open>save()\<close> runs on the copy.
\<close>

definition addReport ::
  "numbers \<Rightarrow> (outbreak \<Rightarrow> bool) \<Rightarrow> int \<Rightarrow> report \<Rightarrow> outbreak \<Rightarrow> error + outbreak" where
  "addReport js valid now reportData this =
     (let reports = reportedBy this @ [reportData];
          cases = length reports
      in case plusAssign js (affectedArea this) (areaOrZero (r_affectedArea reportData)) of
           None \<Rightarrow> Inl ValidationError
         | Some area \<Rightarrow>
             (let this' = this\<lparr> reportedBy := reports,
                                confirmedCases := cases,
                                affectedArea := area,
                                lastUpdated := now,
                                severity := (case thresholdSeverity cases area of
                                               Some s \<Rightarrow> s
                                             | None \<Rightarrow> severity this) \<rparr>
              in if valid this' then Inr this' else Inl ValidationError))"

text \<open>
  \<open>diseaseOutbreakSchema.methods.updateStatus\<close>. Its assignments to \<open>resolvedAt\<close> and
  \<open>resolvedBy\<close> set properties that are no paths of the schema: they are not saved and
  no route serves them.
\<close>

definition updateStatus ::
  "(outbreak \<Rightarrow> bool) \<Rightarrow> int \<Rightarrow> status \<Rightarrow> nat \<Rightarrow> outbreak \<Rightarrow> error + outbreak" where
  "updateStatus valid now newStatus updatedBy this =
     (let this' = this\<lparr> status := newStatus, lastUpdated := now \<rparr>
      in if valid this' then Inr this' else Inl ValidationError)"

text \<open>
  The body of a validated \<open>POST /api/outbreaks/report\<close>: \<open>affectedArea\<close>, \<open>images\<close> and
  \<open>notes\<close> have their defaults already (the number 0, the empty list, the empty
  string).
\<close>

record reportRequest =
  q_disease :: string
  q_crop :: string
  q_latitude :: real
  q_longitude :: real
  q_address :: string
  q_region :: string
  q_severity :: severity
  q_affectedArea :: areaValue
  q_images :: "string list"
  q_notes :: string

definition requestReport :: "nat \<Rightarrow> reportRequest \<Rightarrow> report" where
  "requestReport userId q =
     \<lparr> r_userId = userId, r_severity = q_severity q,
       r_affectedArea = Some (q_affectedArea q),
       r_images = q_images q, r_notes = q_notes q \<rparr>"

text \<open>The cast of the constructor's \<open>affectedArea\<close> to the \<open>Number\<close> path.\<close>

definition castArea :: "numbers \<Rightarrow> areaValue \<Rightarrow> real option" where
  "castArea js v = (case v of AreaNumber x \<Rightarrow> Some x | AreaString s \<Rightarrow> num_cast js s)"

text \<open>
  The branch of the report route that finds no cluster nearby:
  \<open>new DiseaseOutbreak({disease, crop, location, severity, affectedArea, reportedBy: [...]})\<close>
  with the schema's defaults for the fields the route leaves out
  (\<open>status\<close> active, \<open>confirmedCases\<close> 1, the dates \<open>Date.now\<close>), and \<open>save()\<close>.
\<close>

definition newOutbreak ::
  "numbers \<Rightarrow> (outbreak \<Rightarrow> bool) \<Rightarrow> int \<Rightarrow> nat \<Rightarrow> reportRequest \<Rightarrow> error + outbreak" where
  "newOutbreak js valid now userId q =
     (case castArea js (q_affectedArea q) of
        None \<Rightarrow> Inl ValidationError
      | Some area \<Rightarrow>
          (let this = \<lparr> disease = q_disease q, crop = q_crop q,
                        latitude = q_latitude q, longitude = q_longitude q,
                        address = q_address q, region = q_region q,
                        reportedBy = [requestReport userId q],
                        severity = q_severity q,
                        status = Active,
                        affectedArea = area,
                        confirmedCases = 1,
                        firstReported = now, lastUpdated = now,
                        treatmentRecommendations = [], alertsSent = [] \<rparr>
           in if valid this then Inr this else Inl ValidationError))"

text \<open>The treatment route: pushes a recommendation and touches \<open>lastUpdated\<close>.\<close>

definition addTreatment ::
  "(outbreak \<Rightarrow> bool) \<Rightarrow> int \<Rightarrow> treatment \<Rightarrow> outbreak \<Rightarrow> error + outbreak" where
  "addTreatment valid now t this =
     (let this' = this\<lparr> treatmentRecommendations := treatmentRecommendations this @ [t],
                        lastUpdated := now \<rparr>
      in if valid this' then Inr this' else Inl ValidationError)"

text \<open>\<open>sendOutbreakAlerts\<close>: pushes one alert record.\<close>

definition sendOutbreakAlerts ::
  "(outbreak \<Rightarrow> bool) \<Rightarrow> alert \<Rightarrow> outbreak \<Rightarrow> error + outbreak" where
  "sendOutbreakAlerts valid a this =
     (let this' = this\<lparr> alertsSent := alertsSent this @ [a] \<rparr>
      in if valid this' then Inr this' else Inl ValidationError)"

text \<open>
  The condition of the report route under which alerts go out after the add or create.
\<close>

definition alertsDue :: "outbreak \<Rightarrow> bool" where
  "alertsDue this = (severity this = Critical \<or> confirmedCases this \<ge> 10)"

subsection \<open>Requests on a stored cluster\<close>

text \<open>
  A request on an existing cluster reads the stored document into a copy of its own,
  changes the copy and saves it. The requests of the routes, by what they do to the
  copy: the report route's \<open>addReport\<close> and, in a save of its own,
  \<open>sendOutbreakAlerts\<close>; the status route; the treatment route.
\<close>

datatype request =
    AddReport int report
  | UpdateStatus int status nat
  | AddTreatment int treatment
  | SendAlerts alert

definition handle ::
  "numbers \<Rightarrow> (outbreak \<Rightarrow> bool) \<Rightarrow> request \<Rightarrow> outbreak \<Rightarrow> error + outbreak" where
  "handle js valid req copy =
     (case req of
        AddReport now reportData \<Rightarrow> addReport js valid now reportData copy
      | UpdateStatus now newStatus updatedBy \<Rightarrow> updateStatus valid now newStatus updatedBy copy
      | AddTreatment now t \<Rightarrow> addTreatment valid now t copy
      | SendAlerts a \<Rightarrow> sendOutbreakAlerts valid a copy)"

text \<open>
  What \<open>save()\<close> writes: the changes of the copy since it was read, and nothing else.
  The elements pushed to an array are pushed to the stored array, a path whose value
  changed is set to the copy's value, and the write does not depend on the stored
  document being the one that was read.
\<close>

definition saveChanges :: "outbreak \<Rightarrow> outbreak \<Rightarrow> outbreak \<Rightarrow> outbreak" where
  "saveChanges loaded changed stored =
     stored\<lparr>
       reportedBy := reportedBy stored @ drop (length (reportedBy loaded)) (reportedBy changed),
       treatmentRecommendations := treatmentRecommendations stored @
          drop (length (treatmentRecommendations loaded)) (treatmentRecommendations changed),
       alertsSent := alertsSent stored @ drop (length (alertsSent loaded)) (alertsSent changed),
       severity := (if severity changed = severity loaded then severity stored
                    else severity changed),
       status := (if status changed = status loaded then status stored else status changed),
       affectedArea := (if affectedArea changed = affectedArea loaded then affectedArea stored
                        else affectedArea changed),
       confirmedCases := (if confirmedCases changed = confirmedCases loaded
                          then confirmedCases stored else confirmedCases changed),
       lastUpdated := (if lastUpdated changed = lastUpdated loaded then lastUpdated stored
                       else lastUpdated changed) \<rparr>"

text \<open>
  A cluster in the database with the requests under way: for each the document it read
  and the copy it is about to save.
\<close>

record cluster =
  stored :: outbreak
  inflight :: "(outbreak \<times> outbreak) list"

text \<open>
  A request begins (it reads the stored document and runs its handler; when \<open>save()\<close>
  rejects the copy nothing is written), or the save of the \<open>k\<close>-th request under way
  reaches the database.
\<close>

datatype event = Begin request | Finish nat

definition step :: "numbers \<Rightarrow> (outbreak \<Rightarrow> bool) \<Rightarrow> event \<Rightarrow> cluster \<Rightarrow> cluster" where
  "step js valid e c =
     (case e of
        Begin req \<Rightarrow>
          (case handle js valid req (stored c) of
             Inl err \<Rightarrow> c
           | Inr changed \<Rightarrow> c\<lparr> inflight := inflight c @ [(stored c, changed)] \<rparr>)
      | Finish k \<Rightarrow>
          (if k < length (inflight c)
           then c\<lparr> stored := saveChanges (fst (inflight c ! k)) (snd (inflight c ! k)) (stored c),
                   inflight := take k (inflight c) @ drop (Suc k) (inflight c) \<rparr>
           else c))"

fun run :: "numbers \<Rightarrow> (outbreak \<Rightarrow> bool) \<Rightarrow> event list \<Rightarrow> cluster \<Rightarrow> cluster" where
  "run js valid [] c = c"
| "run js valid (e # es) c = run js valid es (step js valid e c)"

text \<open>
  A report request is under way: a copy with more reports than the document it read.
\<close>

definition reportInFlight :: "cluster \<Rightarrow> bool" where
  "reportInFlight c = list_ex (\<lambda>p. reportedBy (snd p) \<noteq> reportedBy (fst p)) (inflight c)"

text \<open>
  No report request reads the cluster while another report request is between its read
  and its save.
\<close>

fun reportsApart :: "numbers \<Rightarrow> (outbreak \<Rightarrow> bool) \<Rightarrow> event list \<Rightarrow> cluster \<Rightarrow> bool" where
  "reportsApart js valid [] c = True"
| "reportsApart js valid (Begin (AddReport now reportData) # es) c =
     (\<not> reportInFlight c \<and> reportsApart js valid es (step js valid (Begin (AddReport now reportData)) c))"
| "reportsApart js valid (e # es) c = reportsApart js valid es (step js valid e c)"

subsection \<open>Concrete clusters\<close>

text \<open>
  A first report of blight on tomato by user 7 with the severity and the area the
  reporter chose, and a report of user 8 on the same outbreak.
\<close>

definition blightRequest :: "severity \<Rightarrow> areaValue \<Rightarrow> reportRequest" where
  "blightRequest s a =
     \<lparr> q_disease = ''Blight'', q_crop = ''tomato'',
       q_latitude = 12.97, q_longitude = 77.59,
       q_address = ''Hoskote'', q_region = ''Karnataka'',
       q_severity = s, q_affectedArea = a, q_images = [], q_notes = [] \<rparr>"

definition followUp :: "severity \<Rightarrow> areaValue \<Rightarrow> report" where
  "followUp s a = requestReport 8 (blightRequest s a)"

text \<open>A \<open>save()\<close> that accepts the document, as it does for the concrete clusters.\<close>

definition accepted :: "outbreak \<Rightarrow> bool" where
  "accepted this = True"

text \<open>The cluster that the first report opens at time 1, when \<open>save()\<close> accepts it.\<close>

definition opened :: "severity \<Rightarrow> areaValue \<Rightarrow> error + outbreak" where
  "opened s a = newOutbreak decimalNumbers accepted 1 7 (blightRequest s a)"

text \<open>One request after the other: each is saved before the next begins.\<close>

definition inTurn :: "request list \<Rightarrow> event list" where
  "inTurn reqs = concat (map (\<lambda>req. [Begin req, Finish 0]) reqs)"

text \<open>
  A cluster opened as critical that three further reports without area have joined,
  one after the other.
\<close>

definition criticalCluster4 :: outbreak where
  "criticalCluster4 =
     stored (run decimalNumbers accepted
       (inTurn [AddReport 2 (followUp Low (AreaNumber 0)), AddReport 3 (followUp Low (AreaNumber 0)),
                AddReport 4 (followUp Low (AreaNumber 0))])
       \<lparr> stored = projr (opened Critical (AreaNumber 0)), inflight = [] \<rparr>)"

text \<open>A cluster opened as low with 10 acres that one report without area has joined.\<close>

definition lowCluster2 :: outbreak where
  "lowCluster2 =
     stored (run decimalNumbers accepted (inTurn [AddReport 2 (followUp Low (AreaNumber 0))])
       \<lparr> stored = projr (opened Low (AreaNumber 10)), inflight = [] \<rparr>)"

text \<open>
  Two report requests on a cluster with one report that both read the cluster before
  either is saved.
\<close>

definition overlapping :: "event list" where
  "overlapping =
     [Begin (AddReport 2 (followUp Medium (AreaNumber 5))),
      Begin (AddReport 3 (followUp Medium (AreaNumber 5))),
      Finish 0, Finish 0]"

text \<open>
  A report, a status update that begins before the report is saved, and a second report
  after both.
\<close>

definition interleaved :: "event list" where
  "interleaved =
     [Begin (AddReport 2 (followUp Medium (AreaNumber 5))),
      Begin (UpdateStatus 3 Contained 9),
      Finish 0, Finish 0,
      Begin (AddReport 4 (followUp Medium (AreaNumber 5))),
      Finish 0]"

definition criticalCluster5 :: outbreak where
  "criticalCluster5 =
     projr (addReport decimalNumbers accepted 5 (followUp Low (AreaNumber 0)) criticalCluster4)"

subsection \<open>The state of a cluster between requests\<close>

text \<open>
  A request under way that leaves reports and count alone, and one that adds a report to
  the reports now stored.
\<close>

definition untouched :: "outbreak \<times> outbreak \<Rightarrow> bool" where
  "untouched p =
     (reportedBy (snd p) = reportedBy (fst p) \<and> confirmedCases (snd p) = confirmedCases (fst p))"

definition reporting :: "cluster \<Rightarrow> outbreak \<times> outbreak \<Rightarrow> bool" where
  "reporting c p =
     (reportedBy (fst p) = reportedBy (stored c) \<and>
      confirmedCases (fst p) = confirmedCases (stored c) \<and>
      confirmedCases (snd p) = Suc (length (reportedBy (fst p))) \<and>
      length (reportedBy (snd p)) = Suc (length (reportedBy (fst p))) \<and>
      take (length (reportedBy (fst p))) (reportedBy (snd p)) = reportedBy (fst p))"

definition consistent :: "cluster \<Rightarrow> bool" where
  "consistent c =
     (confirmedCases (stored c) = length (reportedBy (stored c)) \<and>
      list_all (\<lambda>p. untouched p \<or> reporting c p) (inflight c) \<and>
      length (filter (\<lambda>p. reportedBy (snd p) \<noteq> reportedBy (fst p)) (inflight c)) \<le> 1)"


text \<open>The cluster that a first report of medium severity with 10 acres opens.\<close>

definition openedMedium :: outbreak where
  "openedMedium = projr (opened Medium (AreaNumber 10))"

section \<open>Server-side reconciliation (routes/sync.js, models/CropDiagnosis, models/User)\<close>

text \<open>
  A stored diagnosis document: \<open>cd_disease\<close>, \<open>cd_confidence\<close> and \<open>cd_severity\<close> are the
  required paths of \<open>diagnosis\<close>, \<open>cd_createdAt\<close> the date in milliseconds; \<open>cd_crop\<close>,
  \<open>cd_location\<close> and \<open>cd_weather\<close> are the values the document was built from.
\<close>

record cropDiagnosis =
  cd_id :: nat
  cd_user :: nat
  cd_disease :: string
  cd_confidence :: real
  cd_severity :: string
  cd_crop :: jsval
  cd_location :: "jsval option"
  cd_weather :: "jsval option"
  cd_isOffline :: bool
  cd_createdAt :: int



text \<open>A user document, by path.\<close>

type_synonym userDoc = "string \<rightharpoonup> jsval"

record server =
  diagnoses :: "cropDiagnosis list"
  users :: "nat \<rightharpoonup> userDoc"
  nextId :: nat

text \<open>
  The result of a reconciler. A date is \<open>new Date(timestamp)\<close>: the milliseconds, or
  \<open>None\<close> for a timestamp that \<open>new Date\<close> does not parse (an invalid date).
\<close>

datatype syncResult =
    Skipped string nat
  | Created nat
  | LoggedIrrigation "int option" "jsval option" "jsval option" "jsval option"
  | LoggedMarket "int option" jsval jsval
  | Updated "string list"
  | NoChanges string













text \<open>The items of a request that passed the route's validators.\<close>

datatype syncType = Diagnosis | Irrigation | Market | UserData



text \<open>
  One entry of \<open>results\<close>: the item's type with \<open>status: 'success'\<close> and the
  reconciler's result, or with \<open>status: 'error'\<close> and the error caught (whose message
  the entry carries).
\<close>

datatype itemStatus = ItemSuccess syncResult | ItemError error



record batchResponse =
  total :: nat
  success :: nat
  errors :: nat
  results :: "(syncType \<times> itemStatus) list"


text \<open>\<open>DELETE /api/sync/clear\<close>: the cutoff the \<open>switch\<close> on \<open>olderThan\<close> computes.\<close>

definition days :: "int \<Rightarrow> int" where
  "days n = n * 24 * 60 * 60 * 1000"

definition cutoffDate :: "int \<Rightarrow> string option \<Rightarrow> int" where
  "cutoffDate now olderThan =
     (let older = (case olderThan of None \<Rightarrow> ''30d'' | Some v \<Rightarrow> v) in
      if older = ''7d'' then now - days 7
      else if older = ''30d'' then now - days 30
      else if older = ''90d'' then now - days 90
      else now - days 30)"

text \<open>The filter of \<open>deleteMany\<close>.\<close>

definition clearable :: "nat \<Rightarrow> int \<Rightarrow> cropDiagnosis \<Rightarrow> bool" where
  "clearable userId cutoff x =
     (cd_user x = userId \<and> cd_createdAt x < cutoff \<and> cd_isOffline x)"

record clearResponse =
  deletedCount :: nat
  cutoff :: int

definition clearOld :: "int \<Rightarrow> string option \<Rightarrow> nat \<Rightarrow> server \<Rightarrow> clearResponse \<times> server" where
  "clearOld now olderThan userId st =
     (let c = cutoffDate now olderThan
      in (\<lparr> deletedCount = length (filter (clearable userId c) (diagnoses st)), cutoff = c \<rparr>,
          st\<lparr> diagnoses := filter (\<lambda>x. \<not> clearable userId c x) (diagnoses st) \<rparr>))"

subsection \<open>Concrete requests\<close>












text \<open>
  Three stored diagnoses, all a hundred days old at time \<open>days 100\<close>: one that user 7
  synced from the offline queue, one that user 7 made online, one that user 8 synced.
\<close>

definition storedDiagnosis :: "nat \<Rightarrow> nat \<Rightarrow> bool \<Rightarrow> cropDiagnosis" where
  "storedDiagnosis i u off =
     \<lparr> cd_id = i, cd_user = u, cd_disease = ''Blight'', cd_confidence = 0.9,
       cd_severity = ''high'', cd_crop = JStr ''tomato'', cd_location = None, cd_weather = None,
       cd_isOffline = off, cd_createdAt = 0 \<rparr>"

definition oldServer :: server where
  "oldServer =
     \<lparr> diagnoses = [storedDiagnosis 0 7 True, storedDiagnosis 1 7 False, storedDiagnosis 2 8 True],
       users = Map.empty, nextId = 3 \<rparr>"

section \<open>The client's offline store and sync queue (context/OfflineContext.tsx)\<close>

subsection \<open>IndexedDB\<close>

text \<open>
  The values a key path yields in this database. The Indexed Database API converts a
  value to a key when it is a number, a date, a string, a binary or an array of those;
  every other value, a boolean among them, is not a key. An index leaves out the records
  whose key path yields such a value, and a key range cannot be built from one.
\<close>

datatype idbValue = IdbNumber int | IdbString string | IdbBoolean bool

fun validKey :: "idbValue \<Rightarrow> bool" where
  "validKey (IdbNumber n) = True"
| "validKey (IdbString k) = True"
| "validKey (IdbBoolean b) = False"

datatype idbError = ConstraintError | DataError

text \<open>The \<open>OfflineData\<close> interface.\<close>

record offlineData =
  od_id :: string
  od_type :: string
  od_data :: jsval
  od_timestamp :: int
  od_synced :: bool

text \<open>
  An object store with key path \<open>id\<close> holds its records in the order of their keys;
  string keys compare as strings (\<open>getAll\<close> returns the list as it is). \<open>add\<close> fails
  on a key that is present, \<open>put\<close> replaces, \<open>delete\<close> removes.
\<close>

definition db_add :: "offlineData \<Rightarrow> offlineData list \<Rightarrow> idbError + offlineData list" where
  "db_add r store =
     (if od_id r \<in> set (map od_id store) then Inl ConstraintError
      else Inr (insort_key od_id r store))"

definition db_delete :: "string \<Rightarrow> offlineData list \<Rightarrow> offlineData list" where
  "db_delete k store = filter (\<lambda>x. od_id x \<noteq> k) store"

definition db_put :: "offlineData \<Rightarrow> offlineData list \<Rightarrow> offlineData list" where
  "db_put r store = insort_key od_id r (db_delete (od_id r) store)"

text \<open>
  \<open>IDBKeyRange.only(value)\<close> throws a \<open>DataError\<close> for a value that is not a key.
\<close>

definition IDBKeyRange_only :: "idbValue \<Rightarrow> idbError + idbValue" where
  "IDBKeyRange_only v = (if validKey v then Inr v else Inl DataError)"

text \<open>
  \<open>getAll(range)\<close> on the index over \<open>synced\<close>: an index holds the records whose key
  path yields a key, and the query returns those whose key is the one of the range.
\<close>

definition syncedIndex_getAll :: "idbValue \<Rightarrow> offlineData list \<Rightarrow> offlineData list" where
  "syncedIndex_getAll k store =
     filter (\<lambda>x. validKey (IdbBoolean (od_synced x)) \<and> IdbBoolean (od_synced x) = k) store"

subsection \<open>The provider's state and operations\<close>

text \<open>
  The state of \<open>OfflineProvider\<close>: the React state (\<open>isOnline\<close>, \<open>forceOffline\<close>,
  \<open>pendingSync\<close>, and \<open>dbOpen\<close> for \<open>db\<close> not being \<open>null\<close>), the browser's
  \<open>navigator.onLine\<close>, the two object stores, and \<open>requests\<close>: the records posted to
  \<open>/api/sync\<close> so far, in the order of the \<open>fetch\<close> calls.
\<close>

record client =
  isOnline :: bool
  forceOffline :: bool
  navigatorOnLine :: bool
  dbOpen :: bool
  offlineStore :: "offlineData list"
  pendingStore :: "offlineData list"
  pendingSync :: "offlineData list"
  requests :: "offlineData list"

text \<open>
  The id of a new record: the type, the decimal digits of \<open>Date.now()\<close> and a random
  suffix (the parameter \<open>suffix\<close>), joined by underscores.
\<close>

definition newId :: "string \<Rightarrow> int \<Rightarrow> string \<Rightarrow> string" where
  "newId type now suffix = type @ ''_'' @ showNat (nat now) @ ''_'' @ suffix"

text \<open>
  \<open>syncDataItem\<close>. \<open>deliver item\<close> says whether the \<open>fetch\<close> for the item resolves with
  \<open>response.ok\<close>; a network error and a response outside 2xx both give \<open>False\<close>.
\<close>

definition syncDataItem :: "(offlineData \<Rightarrow> bool) \<Rightarrow> offlineData \<Rightarrow> client \<Rightarrow> bool \<times> client" where
  "syncDataItem deliver item s =
     (let s1 = s\<lparr> requests := requests s @ [item] \<rparr> in
      if deliver item then
        (if dbOpen s1
         then (True, s1\<lparr> offlineStore := db_put (item\<lparr> od_synced := True \<rparr>) (offlineStore s1),
                         pendingStore := db_delete (od_id item) (pendingStore s1) \<rparr>)
         else (True, s1))
      else (False, s1))"

text \<open>
  \<open>saveOfflineData\<close>; an exception of the database is caught and ends the call.
\<close>

definition saveOfflineData ::
  "(offlineData \<Rightarrow> bool) \<Rightarrow> int \<Rightarrow> string \<Rightarrow> string \<Rightarrow> jsval \<Rightarrow> client \<Rightarrow> client" where
  "saveOfflineData deliver now suffix type data s =
     (if \<not> dbOpen s then s
      else
        (let offlineData = \<lparr> od_id = newId type now suffix, od_type = type, od_data = data,
                              od_timestamp = now, od_synced = False \<rparr>
         in case db_add offlineData (offlineStore s) of
              Inl e \<Rightarrow> s
            | Inr store' \<Rightarrow>
                (let s1 = s\<lparr> offlineStore := store' \<rparr> in
                 if \<not> isOnline s1 then
                   (case db_add offlineData (pendingStore s1) of
                      Inl e \<Rightarrow> s1
                    | Inr pending' \<Rightarrow>
                        s1\<lparr> pendingStore := pending',
                            pendingSync := pendingSync s1 @ [offlineData] \<rparr>)
                 else snd (syncDataItem deliver offlineData s1))))"

text \<open>
  The \<open>map\<close> of \<open>syncPendingData\<close> over the pending list: one \<open>syncDataItem\<close> per
  record, the \<open>fetch\<close> calls issued in the order of the list.
\<close>

fun syncEach ::
  "(offlineData \<Rightarrow> bool) \<Rightarrow> offlineData list \<Rightarrow> client \<Rightarrow> (offlineData \<times> bool) list \<times> client" where
  "syncEach deliver [] s = ([], s)"
| "syncEach deliver (item # items) s =
     (let (success, s1) = syncDataItem deliver item s;
          (rest, s2) = syncEach deliver items s1
      in ((item, success) # rest, s2))"

text \<open>
  \<open>syncPendingData\<close>, up to the update of the pending list; the three tests of its
  guard in the order \<open>||\<close> evaluates them.
\<close>

definition syncPendingData :: "(offlineData \<Rightarrow> bool) \<Rightarrow> client \<Rightarrow> client" where
  "syncPendingData deliver s =
     (if \<not> isOnline s then s
      else if \<not> dbOpen s then s
      else if length (pendingSync s) = 0 then s
      else
        (let (results, s1) = syncEach deliver (pendingSync s) s;
             stillPending = map fst (filter (\<lambda>result. \<not> snd result) results)
         in s1\<lparr> pendingSync := stillPending \<rparr>))"

text \<open>
  The effect of the provider, which React runs at mount and again after every change of
  \<open>forceOffline\<close> (its dependency): \<open>initDB\<close> opens the database and loads the pending
  list with \<open>getAll('pendingSync')\<close>, and the listeners are registered anew.
\<close>

definition initDB :: "client \<Rightarrow> client" where
  "initDB s = s\<lparr> dbOpen := True, pendingSync := pendingStore s \<rparr>"

text \<open>
  Mounting the provider on a page load: the state starts from \<open>navigator.onLine\<close> and
  the effect runs.
\<close>

definition mount :: "client \<Rightarrow> client" where
  "mount s =
     s\<lparr> isOnline := navigatorOnLine s, forceOffline := False, dbOpen := True,
        pendingSync := pendingStore s \<rparr>"

text \<open>The listeners of the window's \<open>online\<close> and \<open>offline\<close> events.\<close>

definition handleOnline :: "client \<Rightarrow> client" where
  "handleOnline s = (if \<not> forceOffline s then s\<lparr> isOnline := True \<rparr> else s)"

definition handleOffline :: "client \<Rightarrow> client" where
  "handleOffline s = s\<lparr> isOnline := False \<rparr>"

text \<open>
  \<open>toggleOnlineMode\<close>, and the effect that its change of \<open>forceOffline\<close> sets off.
\<close>

definition toggleOnlineMode :: "client \<Rightarrow> client" where
  "toggleOnlineMode s =
     initDB
       (let s1 = s\<lparr> forceOffline := \<not> forceOffline s \<rparr> in
        if forceOffline s then s1\<lparr> isOnline := navigatorOnLine s \<rparr>
        else s1\<lparr> isOnline := False \<rparr>)"

text \<open>The browser regains or loses the network and fires the event.\<close>

definition onlineEvent :: "client \<Rightarrow> client" where
  "onlineEvent s = handleOnline (s\<lparr> navigatorOnLine := True \<rparr>)"

definition offlineEvent :: "client \<Rightarrow> client" where
  "offlineEvent s = handleOffline (s\<lparr> navigatorOnLine := False \<rparr>)"

text \<open>The \<open>for\<close> loop of \<open>clearSyncedData\<close> over the items the index returned.\<close>

fun deleteOld :: "int \<Rightarrow> offlineData list \<Rightarrow> offlineData list \<Rightarrow> offlineData list" where
  "deleteOld now [] store = store"
| "deleteOld now (item # items) store =
     (let weekAgo = now - (7 * 24 * 60 * 60 * 1000) in
      if od_timestamp item < weekAgo
      then deleteOld now items (db_delete (od_id item) store)
      else deleteOld now items store)"

text \<open>
  \<open>clearSyncedData\<close>: the key range is built from \<open>true\<close>; an exception is caught and
  ends the call.
\<close>

definition clearSyncedData :: "int \<Rightarrow> client \<Rightarrow> client" where
  "clearSyncedData now s =
     (if \<not> dbOpen s then s
      else
        (case IDBKeyRange_only (IdbBoolean True) of
           Inl e \<Rightarrow> s
         | Inr only_true \<Rightarrow>
             s\<lparr> offlineStore :=
                  deleteOld now (syncedIndex_getAll only_true (offlineStore s)) (offlineStore s) \<rparr>))"

text \<open>
  The states of the provider: the first mount on an empty database, and whatever the
  operations, the events, a toggle or a reload make of a state.
\<close>

inductive reachableClient :: "client \<Rightarrow> bool" where
  first_mount:
    "reachableClient
       (mount \<lparr> isOnline = up, forceOffline = False, navigatorOnLine = up, dbOpen = False,
                offlineStore = [], pendingStore = [], pendingSync = [], requests = [] \<rparr>)"
| saved: "reachableClient s \<Longrightarrow> reachableClient (saveOfflineData deliver now suffix type data s)"
| drained: "reachableClient s \<Longrightarrow> reachableClient (syncPendingData deliver s)"
| pruned: "reachableClient s \<Longrightarrow> reachableClient (clearSyncedData now s)"
| toggled: "reachableClient s \<Longrightarrow> reachableClient (toggleOnlineMode s)"
| went_online: "reachableClient s \<Longrightarrow> reachableClient (onlineEvent s)"
| went_offline: "reachableClient s \<Longrightarrow> reachableClient (offlineEvent s)"
| reloaded: "reachableClient s \<Longrightarrow> reachableClient (mount s)"

subsection \<open>Concrete client states\<close>

definition onlineClient :: client where
  "onlineClient =
     \<lparr> isOnline = True, forceOffline = False, navigatorOnLine = True, dbOpen = True,
       offlineStore = [], pendingStore = [], pendingSync = [], requests = [] \<rparr>"

definition offlineClient :: client where
  "offlineClient = onlineClient\<lparr> isOnline := False, navigatorOnLine := False \<rparr>"

definition marketRecord :: offlineData where
  "marketRecord =
     \<lparr> od_id = ''market_1000_k3x9q2mzp'', od_type = ''market'', od_data = JNull,
       od_timestamp = 1000, od_synced = False \<rparr>"

definition diagnosisRecord :: offlineData where
  "diagnosisRecord =
     \<lparr> od_id = ''diagnosis_2000_a81bc0d4e'', od_type = ''diagnosis'', od_data = JNull,
       od_timestamp = 2000, od_synced = False \<rparr>"

text \<open>
  Offline, a market record is saved at time 1000 and a diagnosis at time 2000.
\<close>

definition twoSavedOffline :: client where
  "twoSavedOffline =
     saveOfflineData (\<lambda>item. False) 2000 ''a81bc0d4e'' ''diagnosis'' JNull
       (saveOfflineData (\<lambda>item. False) 1000 ''k3x9q2mzp'' ''market'' JNull offlineClient)"

text \<open>
  The user forces the offline mode while the network is up, and a market record is saved.
\<close>

definition savedForcedOffline :: client where
  "savedForcedOffline =
     saveOfflineData (\<lambda>item. False) 1000 ''k3x9q2mzp'' ''market'' JNull
       (toggleOnlineMode onlineClient)"

text \<open>Online, a diagnosis is saved at time 2000 and its request fails.\<close>

definition savedOnlineFailed :: client where
  "savedOnlineFailed =
     saveOfflineData (\<lambda>item. False) 2000 ''a81bc0d4e'' ''diagnosis'' JNull onlineClient"

text \<open>
  A store with one record that was synced and is eight days old at time \<open>days 10\<close>, and
  one that is pending.
\<close>

definition oldSynced :: offlineData where
  "oldSynced = marketRecord\<lparr> od_timestamp := days 2, od_synced := True \<rparr>"

definition prunableClient :: client where
  "prunableClient = onlineClient\<lparr> offlineStore := [diagnosisRecord, oldSynced] \<rparr>"

text \<open>
  Offline, market records are saved at times 999 and 1000 and a diagnosis at time 2000;
  then the network comes back and the page is loaded again.
\<close>

definition earlyMarketRecord :: offlineData where
  "earlyMarketRecord =
     \<lparr> od_id = ''market_999_p0o9i8u7y'', od_type = ''market'', od_data = JNull,
       od_timestamp = 999, od_synced = False \<rparr>"

definition threeSavedOffline :: client where
  "threeSavedOffline =
     saveOfflineData (\<lambda>item. False) 2000 ''a81bc0d4e'' ''diagnosis'' JNull
       (saveOfflineData (\<lambda>item. False) 1000 ''k3x9q2mzp'' ''market'' JNull
         (saveOfflineData (\<lambda>item. False) 999 ''p0o9i8u7y'' ''market'' JNull offlineClient))"

definition reloadedOnline :: client where
  "reloadedOnline = mount (onlineEvent threeSavedOffline)"

section \<open>Properties of outbreak clusters\<close>

lemma thresholdSeverity_at_least_medium:
  "thresholdSeverity cases area = Some s \<Longrightarrow> rank Medium \<le> rank s"
  by (auto simp: thresholdSeverity_def split: if_splits)

lemma addReport_saved:
  assumes "addReport js valid now reportData this = Inr this'"
  shows "reportedBy this' = reportedBy this @ [reportData]"
    and "confirmedCases this' = Suc (length (reportedBy this))"
    and "plusAssign js (affectedArea this) (areaOrZero (r_affectedArea reportData)) =
           Some (affectedArea this')"
    and "severity this' =
           (case thresholdSeverity (confirmedCases this') (affectedArea this') of
              Some s \<Rightarrow> s | None \<Rightarrow> severity this)"
    and "treatmentRecommendations this' = treatmentRecommendations this"
    and "alertsSent this' = alertsSent this"
    and "status this' = status this"
  using assms
  by (auto simp: addReport_def Let_def split: option.splits if_splits)

lemma accepted_addReport:
  "plusAssign js (affectedArea this) (areaOrZero (r_affectedArea reportData)) = Some area \<Longrightarrow>
   addReport js accepted now reportData this =
     Inr (this\<lparr> reportedBy := reportedBy this @ [reportData],
               confirmedCases := Suc (length (reportedBy this)),
               affectedArea := area,
               lastUpdated := now,
               severity := (case thresholdSeverity (Suc (length (reportedBy this))) area of
                              Some s \<Rightarrow> s | None \<Rightarrow> severity this) \<rparr>)"
  by (simp add: addReport_def Let_def accepted_def)

lemma handle_saveChanges:
  assumes "handle js valid req loaded = Inr changed"
  shows "saveChanges loaded changed loaded = changed"
  using assms
  by (cases req)
     (auto simp: handle_def saveChanges_def addReport_def updateStatus_def addTreatment_def
        sendOutbreakAlerts_def Let_def split: option.splits if_splits)

lemma run_inTurn_Cons:
  assumes "handle js valid req st = Inr changed"
  shows "run js valid (inTurn (req # reqs)) \<lparr> stored = st, inflight = [] \<rparr> =
         run js valid (inTurn reqs) \<lparr> stored = changed, inflight = [] \<rparr>"
  using assms handle_saveChanges [OF assms]
  by (simp add: inTurn_def step_def)

lemma opened_document:
  "opened s (AreaNumber a) =
     Inr \<lparr> disease = ''Blight'', crop = ''tomato'', latitude = 12.97, longitude = 77.59,
           address = ''Hoskote'', region = ''Karnataka'',
           reportedBy = [requestReport 7 (blightRequest s (AreaNumber a))],
           severity = s, status = Active, affectedArea = a, confirmedCases = 1,
           firstReported = 1, lastUpdated = 1,
           treatmentRecommendations = [], alertsSent = [] \<rparr>"
  by (simp add: opened_def newOutbreak_def castArea_def blightRequest_def accepted_def)

lemma followUp_zero:
  "plusAssign decimalNumbers a (areaOrZero (r_affectedArea (followUp s (AreaNumber 0)))) = Some a"
  by (simp add: followUp_def requestReport_def blightRequest_def areaOrZero_def plusAssign_def
      decimalNumbers_def)

lemma followUp_number:
  "x \<noteq> 0 \<Longrightarrow>
   plusAssign decimalNumbers a (areaOrZero (r_affectedArea (followUp s (AreaNumber x)))) =
     Some (a + x)"
  by (simp add: followUp_def requestReport_def blightRequest_def areaOrZero_def plusAssign_def
      decimalNumbers_def)

lemma run_followUp_zero:
  "run decimalNumbers accepted (inTurn (AddReport now (followUp s (AreaNumber 0)) # reqs))
     \<lparr> stored = st, inflight = [] \<rparr> =
   run decimalNumbers accepted (inTurn reqs)
     \<lparr> stored = st\<lparr> reportedBy := reportedBy st @ [followUp s (AreaNumber 0)],
                      confirmedCases := Suc (length (reportedBy st)),
                      affectedArea := affectedArea st,
                      lastUpdated := now,
                      severity := (case thresholdSeverity (Suc (length (reportedBy st)))
                                          (affectedArea st) of
                                     Some l \<Rightarrow> l | None \<Rightarrow> severity st) \<rparr>,
       inflight = [] \<rparr>"
  by (rule run_inTurn_Cons) (simp add: handle_def accepted_addReport [OF followUp_zero])

lemma run_inTurn_Nil: "run js valid (inTurn []) c = c"
  by (simp add: inTurn_def)

lemma criticalCluster4_fields:
  "severity criticalCluster4 = Critical"
  "length (reportedBy criticalCluster4) = 4"
  "confirmedCases criticalCluster4 = 4"
  "affectedArea criticalCluster4 = 0"
  unfolding criticalCluster4_def opened_document sum.sel run_followUp_zero run_inTurn_Nil
  by (simp_all add: thresholdSeverity_def)

lemma lowCluster2_fields:
  "severity lowCluster2 = Low"
  "length (reportedBy lowCluster2) = 2"
  "confirmedCases lowCluster2 = 2"
  "affectedArea lowCluster2 = 10"
  unfolding lowCluster2_def opened_document sum.sel run_followUp_zero run_inTurn_Nil
  by (simp_all add: thresholdSeverity_def)

text \<open>
  An area that arrives as a JSON string is appended to the text of the cluster's area:
  the cluster of 10 acres that a report with the area \<open>'45'\<close> joins holds 1045 acres
  afterwards and is critical.
\<close>

lemma addReport_string_area:
  "plusAssign decimalNumbers (affectedArea lowCluster2)
     (areaOrZero (r_affectedArea (followUp Low (AreaString ''45'')))) = Some 1045"
  "affectedArea (projr (addReport decimalNumbers accepted 3 (followUp Low (AreaString ''45''))
     lowCluster2)) = 1045"
  "severity (projr (addReport decimalNumbers accepted 3 (followUp Low (AreaString ''45''))
     lowCluster2)) = Critical"
proof -
  show area: "plusAssign decimalNumbers (affectedArea lowCluster2)
      (areaOrZero (r_affectedArea (followUp Low (AreaString ''45'')))) = Some 1045"
    by (simp add: followUp_def requestReport_def blightRequest_def areaOrZero_def plusAssign_def
        decimalNumbers_def lowCluster2_fields digitValue_def)
  show "affectedArea (projr (addReport decimalNumbers accepted 3 (followUp Low (AreaString ''45''))
     lowCluster2)) = 1045"
    unfolding accepted_addReport [OF area] by simp
  show "severity (projr (addReport decimalNumbers accepted 3 (followUp Low (AreaString ''45''))
     lowCluster2)) = Critical"
    unfolding accepted_addReport [OF area] by (simp add: thresholdSeverity_def)
qed

text \<open>
  C1, as stated, fails: a cluster that the report route opened with severity critical
  and that holds four reports is set to medium by the fifth report, since the thresholds
  overwrite the severity whatever it was.
\<close>

theorem addReport_severity_decreases:
  "addReport decimalNumbers accepted 5 (followUp Low (AreaNumber 0)) criticalCluster4 =
     Inr criticalCluster5 \<and>
   severity criticalCluster4 = Critical \<and>
   severity criticalCluster5 = Medium \<and>
   rank (severity criticalCluster5) < rank (severity criticalCluster4)"
  unfolding criticalCluster5_def accepted_addReport [OF followUp_zero] sum.sel
  by (simp add: criticalCluster4_fields thresholdSeverity_def)

text \<open>
  C1, amended: whatever the severity was before, an \<open>addReport\<close> that \<open>save()\<close>
  accepts sets it from the counts after the report is added (\<open>confirmedCases\<close> one more
  than the reports before; \<open>affectedArea\<close> what \<open>+=\<close> leaves in it: the sum for a number,
  and for a string the text of the area followed by the string, cast back to a number):
  critical when \<open>confirmedCases\<close> is at least 20
  or \<open>affectedArea\<close> at least 500, else high at 10 cases or 200 acres, else medium at 5
  cases or 50 acres, and unchanged below those thresholds. So a severity that was low or
  medium before the call does not decrease, and a higher one is replaced by the level of
  the thresholds as soon as one is reached.
\<close>

theorem addReport_severity_thresholds:
  assumes "addReport js valid now reportData this = Inr this'"
  shows "confirmedCases this' = length (reportedBy this) + 1 \<and>
         (case areaOrZero (r_affectedArea reportData) of
            AreaNumber x \<Rightarrow> Some (num_plus js (affectedArea this) x)
          | AreaString s \<Rightarrow> num_cast js (num_text js (affectedArea this) @ s)) =
           Some (affectedArea this') \<and>
         severity this' =
           (if 20 \<le> confirmedCases this' \<or> 500 \<le> affectedArea this' then Critical
            else if 10 \<le> confirmedCases this' \<or> 200 \<le> affectedArea this' then High
            else if 5 \<le> confirmedCases this' \<or> 50 \<le> affectedArea this' then Medium
            else severity this) \<and>
         (rank (severity this) \<le> rank Medium \<longrightarrow>
            rank (severity this) \<le> rank (severity this'))"
proof -
  note saved = addReport_saved [OF assms]
  have rule: "severity this' =
           (if 20 \<le> confirmedCases this' \<or> 500 \<le> affectedArea this' then Critical
            else if 10 \<le> confirmedCases this' \<or> 200 \<le> affectedArea this' then High
            else if 5 \<le> confirmedCases this' \<or> 50 \<le> affectedArea this' then Medium
            else severity this)"
    unfolding saved(4) by (simp add: thresholdSeverity_def)
  have "rank (severity this) \<le> rank (severity this')" if low: "rank (severity this) \<le> rank Medium"
  proof (cases "thresholdSeverity (confirmedCases this') (affectedArea this')")
    case None
    then show ?thesis by (simp add: saved(4))
  next
    case (Some s)
    with thresholdSeverity_at_least_medium [OF Some] low show ?thesis
      by (simp add: saved(4))
  qed
  with rule saved(2,3) show ?thesis by (simp add: plusAssign_def)
qed

theorem addReport_severity_thresholds_witness:
  "addReport decimalNumbers accepted 3 (followUp High (AreaNumber 45)) lowCluster2 =
     Inr (projr (addReport decimalNumbers accepted 3 (followUp High (AreaNumber 45)) lowCluster2)) \<and>
   severity lowCluster2 = Low \<and>
   affectedArea (projr (addReport decimalNumbers accepted 3 (followUp High (AreaNumber 45)) lowCluster2)) = 55 \<and>
   confirmedCases (projr (addReport decimalNumbers accepted 3 (followUp High (AreaNumber 45)) lowCluster2)) = 3 \<and>
   severity (projr (addReport decimalNumbers accepted 3 (followUp High (AreaNumber 45)) lowCluster2)) = Medium"
proof -
  let ?r = "addReport decimalNumbers accepted 3 (followUp High (AreaNumber 45)) lowCluster2"
  have area: "plusAssign decimalNumbers (affectedArea lowCluster2)
      (areaOrZero (r_affectedArea (followUp High (AreaNumber 45)))) = Some 55"
    by (simp add: followUp_number lowCluster2_fields)
  have h: "?r = Inr (projr ?r)"
    unfolding accepted_addReport [OF area] by simp
  from addReport_severity_thresholds [OF h, folded plusAssign_def] area h
  show ?thesis by (simp add: lowCluster2_fields)
qed

lemma handle_reports:
  assumes "handle js valid req l = Inr ch"
  shows "(\<exists>now r. req = AddReport now r) \<and> confirmedCases ch = Suc (length (reportedBy l)) \<and>
           length (reportedBy ch) = Suc (length (reportedBy l)) \<and>
           take (length (reportedBy l)) (reportedBy ch) = reportedBy l
         \<or> (\<forall>now r. req \<noteq> AddReport now r) \<and> reportedBy ch = reportedBy l \<and>
           confirmedCases ch = confirmedCases l"
  using assms
  by (cases req)
     (auto simp: handle_def addReport_def updateStatus_def addTreatment_def
        sendOutbreakAlerts_def Let_def split: option.splits if_splits)

lemma reporting_stored_cong:
  assumes "reportedBy s' = reportedBy (stored c)" and "confirmedCases s' = confirmedCases (stored c)"
  shows "reporting (c\<lparr> stored := s', inflight := xs \<rparr>) p = reporting c p"
  using assms by (simp add: reporting_def)

lemma only_one:
  assumes "length (filter P xs) \<le> 1" and "k < length xs" and "P (xs ! k)"
  shows "filter P (take k xs @ drop (Suc k) xs) = []"
proof -
  have "xs = take k xs @ xs ! k # drop (Suc k) xs"
    using assms(2) by (simp add: id_take_nth_drop)
  then have "length (filter P xs) =
      length (filter P (take k xs)) + length (filter P [xs ! k]) + length (filter P (drop (Suc k) xs))"
    by (metis append_Cons append_Nil filter_append length_append add.assoc)
  with assms(1,3) show ?thesis by simp
qed

lemma filter_remove_le:
  "length (filter P (take k xs @ drop (Suc k) xs)) \<le> length (filter P xs)"
proof -
  have "length (filter P (take k xs)) + length (filter P (drop k xs)) = length (filter P xs)"
    by (metis append_take_drop_id filter_append length_append)
  moreover have "length (filter P (drop (Suc k) xs)) \<le> length (filter P (drop k xs))"
    by (cases "k < length xs") (simp_all add: Cons_nth_drop_Suc [symmetric])
  ultimately show ?thesis by simp
qed

lemma step_begin_consistent:
  assumes "consistent c" and "(\<exists>now r. req = AddReport now r) \<longrightarrow> \<not> reportInFlight c"
  shows "consistent (step js valid (Begin req) c)"
proof (cases "handle js valid req (stored c)")
  case (Inl err)
  with assms(1) show ?thesis by (simp add: step_def)
next
  case (Inr ch)
  let ?P = "\<lambda>p. reportedBy (snd p) \<noteq> reportedBy (fst p)"
  from assms(1) have cases: "confirmedCases (stored c) = length (reportedBy (stored c))"
    and all: "list_all (\<lambda>p. untouched p \<or> reporting c p) (inflight c)"
    and one: "length (filter ?P (inflight c)) \<le> 1"
    by (simp_all add: consistent_def)
  have same: "reporting (c\<lparr> inflight := xs \<rparr>) p = reporting c p" for xs p
    by (simp add: reporting_def)
  from handle_reports [OF Inr] show ?thesis
  proof
    assume r: "(\<exists>now r. req = AddReport now r) \<and> confirmedCases ch = Suc (length (reportedBy (stored c))) \<and>
           length (reportedBy ch) = Suc (length (reportedBy (stored c))) \<and>
           take (length (reportedBy (stored c))) (reportedBy ch) = reportedBy (stored c)"
    with assms(2) have "filter ?P (inflight c) = []"
      by (simp add: reportInFlight_def list_ex_iff filter_empty_conv)
    moreover from r have "reporting c (stored c, ch)"
      by (simp add: reporting_def)
    ultimately show ?thesis
      using Inr cases all by (simp add: step_def consistent_def same)
  next
    assume u: "(\<forall>now r. req \<noteq> AddReport now r) \<and> reportedBy ch = reportedBy (stored c) \<and>
           confirmedCases ch = confirmedCases (stored c)"
    then have "untouched (stored c, ch)"
      by (simp add: untouched_def)
    with u show ?thesis
      using Inr cases all one by (simp add: step_def consistent_def same)
  qed
qed

lemma step_finish_consistent:
  assumes "consistent c"
  shows "consistent (step js valid (Finish k) c)"
proof (cases "k < length (inflight c)")
  case False
  with assms show ?thesis by (simp add: step_def)
next
  case True
  let ?P = "\<lambda>p. reportedBy (snd p) \<noteq> reportedBy (fst p)"
  let ?p = "inflight c ! k"
  let ?rest = "take k (inflight c) @ drop (Suc k) (inflight c)"
  let ?s' = "saveChanges (fst ?p) (snd ?p) (stored c)"
  from assms have cases: "confirmedCases (stored c) = length (reportedBy (stored c))"
    and all: "list_all (\<lambda>p. untouched p \<or> reporting c p) (inflight c)"
    and one: "length (filter ?P (inflight c)) \<le> 1"
    by (simp_all add: consistent_def)
  have st: "step js valid (Finish k) c = c\<lparr> stored := ?s', inflight := ?rest \<rparr>"
    using True by (simp add: step_def)
  have sub: "set ?rest \<subseteq> set (inflight c)"
    by (auto dest: in_set_takeD in_set_dropD)
  have rest_all: "list_all (\<lambda>p. untouched p \<or> reporting c p) ?rest"
    using all sub by (auto simp: list_all_iff)
  have rest_one: "length (filter ?P ?rest) \<le> 1"
    using filter_remove_le [of ?P k "inflight c"] one by simp
  from all True have p: "untouched ?p \<or> reporting c ?p"
    by (simp add: list_all_length)
  show ?thesis
  proof (cases "?P ?p")
    case False
    with p have u: "reportedBy (snd ?p) = reportedBy (fst ?p)"
      "confirmedCases (snd ?p) = confirmedCases (fst ?p)"
      by (auto simp: untouched_def reporting_def)
    then have keep: "reportedBy ?s' = reportedBy (stored c)" "confirmedCases ?s' = confirmedCases (stored c)"
      by (simp_all add: saveChanges_def)
    show ?thesis
      unfolding st consistent_def
      using cases rest_all rest_one keep
      by (simp add: reporting_stored_cong [OF keep])
  next
    case report: True
    with p have r: "reporting c ?p"
      by (auto simp: untouched_def)
    then have grown: "reportedBy ?s' = reportedBy (stored c) @ drop (length (reportedBy (stored c))) (reportedBy (snd ?p))"
      and len: "length (reportedBy (snd ?p)) = Suc (length (reportedBy (stored c)))"
      and count: "confirmedCases ?s' = Suc (length (reportedBy (stored c)))"
      using cases by (auto simp: reporting_def saveChanges_def)
    from grown len have cases': "confirmedCases ?s' = length (reportedBy ?s')"
      using count by simp
    have none: "filter ?P ?rest = []"
      by (rule only_one [OF one True report])
    have "untouched q" if q: "q \<in> set ?rest" for q
    proof -
      from q rest_all have "untouched q \<or> reporting c q"
        by (auto simp: list_all_iff)
      moreover from q none have eq: "reportedBy (snd q) = reportedBy (fst q)"
        by (auto simp: filter_empty_conv)
      moreover have "length (reportedBy (snd q)) \<noteq> length (reportedBy (fst q))" if "reporting c q"
        using that by (simp add: reporting_def)
      ultimately show ?thesis by auto
    qed
    then have "list_all (\<lambda>p. untouched p) ?rest"
      by (simp add: list_all_iff)
    then have "list_all (\<lambda>p. untouched p \<or> reporting (c\<lparr> stored := ?s', inflight := ?rest \<rparr>) p) ?rest"
      by (auto simp: list_all_iff)
    with cases' none show ?thesis
      unfolding st consistent_def by simp
  qed
qed

lemma run_consistent:
  assumes "consistent c" and "reportsApart js valid es c"
  shows "consistent (run js valid es c)"
  using assms
  by (induction js valid es c rule: reportsApart.induct)
     (simp_all add: step_begin_consistent step_finish_consistent)

lemma openedMedium_document:
  "opened Medium (AreaNumber 10) = Inr openedMedium"
  "reportedBy openedMedium = [requestReport 7 (blightRequest Medium (AreaNumber 10))]"
  "confirmedCases openedMedium = 1"
  "affectedArea openedMedium = 10"
  "severity openedMedium = Medium"
  "status openedMedium = Active"
  "lastUpdated openedMedium = 1"
  by (simp_all add: openedMedium_def opened_document)

lemma report5:
  "plusAssign decimalNumbers a (areaOrZero (r_affectedArea (followUp s (AreaNumber 5)))) =
     Some (a + 5)"
  by (simp add: followUp_number)

lemma begin_report5:
  "step decimalNumbers accepted (Begin (AddReport now (followUp s (AreaNumber 5)))) c =
     c\<lparr> inflight := inflight c @
          [(stored c,
            (stored c)\<lparr> reportedBy := reportedBy (stored c) @ [followUp s (AreaNumber 5)],
                         confirmedCases := Suc (length (reportedBy (stored c))),
                         affectedArea := affectedArea (stored c) + 5,
                         lastUpdated := now,
                         severity := (case thresholdSeverity (Suc (length (reportedBy (stored c))))
                                             (affectedArea (stored c) + 5) of
                                        Some l \<Rightarrow> l | None \<Rightarrow> severity (stored c)) \<rparr>)] \<rparr>"
  by (simp add: step_def handle_def accepted_addReport [OF report5])

lemma begin_status:
  "step js accepted (Begin (UpdateStatus now newStatus updatedBy)) c =
     c\<lparr> inflight := inflight c @
          [(stored c, (stored c)\<lparr> status := newStatus, lastUpdated := now \<rparr>)] \<rparr>"
  by (simp add: step_def handle_def updateStatus_def accepted_def)

lemma finish_first:
  "step js valid (Finish 0) \<lparr> stored = st, inflight = (l, ch) # rest \<rparr> =
     \<lparr> stored = saveChanges l ch st, inflight = rest \<rparr>"
  by (simp add: step_def)

lemma overlapping_run:
  "confirmedCases
     (stored (run decimalNumbers accepted overlapping \<lparr> stored = openedMedium, inflight = [] \<rparr>)) = 2"
  "reportedBy
     (stored (run decimalNumbers accepted overlapping \<lparr> stored = openedMedium, inflight = [] \<rparr>)) =
     [requestReport 7 (blightRequest Medium (AreaNumber 10)),
      followUp Medium (AreaNumber 5), followUp Medium (AreaNumber 5)]"
  by (simp_all add: overlapping_def begin_report5 finish_first saveChanges_def
      openedMedium_document thresholdSeverity_def)

text \<open>
  C7, as stated, fails: two report requests that both read a cluster with one report
  before either is saved each push their report and each set \<open>confirmedCases\<close> to 2, so
  the stored cluster holds three reports with \<open>confirmedCases\<close> 2.
\<close>

theorem overlapping_reports_miscount:
  "opened Medium (AreaNumber 10) = Inr openedMedium \<and>
   confirmedCases
     (stored (run decimalNumbers accepted overlapping \<lparr> stored = openedMedium, inflight = [] \<rparr>)) = 2 \<and>
   length (reportedBy
     (stored (run decimalNumbers accepted overlapping \<lparr> stored = openedMedium, inflight = [] \<rparr>))) = 3"
  by (simp add: overlapping_run openedMedium_document)

text \<open>
  C7, amended: take a cluster that the report route created and that report, status,
  treatment and alert requests have changed, in any interleaving of their reads and
  saves in which no report request reads the cluster while another report request is
  between its read and its save. In every state the stored cluster takes,
  \<open>confirmedCases\<close> is the length of \<open>reportedBy\<close>.
\<close>

theorem confirmedCases_is_report_count:
  assumes "newOutbreak js valid now userId q = Inr first"
      and "reportsApart js valid events \<lparr> stored = first, inflight = [] \<rparr>"
  shows "confirmedCases (stored (run js valid events \<lparr> stored = first, inflight = [] \<rparr>)) =
         length (reportedBy (stored (run js valid events \<lparr> stored = first, inflight = [] \<rparr>)))"
proof -
  from assms(1) have "confirmedCases first = length (reportedBy first)"
    by (auto simp: newOutbreak_def Let_def split: option.splits if_splits)
  then have "consistent \<lparr> stored = first, inflight = [] \<rparr>"
    by (simp add: consistent_def)
  from run_consistent [OF this assms(2)] show ?thesis
    by (simp add: consistent_def)
qed

lemma interleaved_run:
  "confirmedCases
     (stored (run decimalNumbers accepted interleaved \<lparr> stored = openedMedium, inflight = [] \<rparr>)) = 3"
  "reportedBy
     (stored (run decimalNumbers accepted interleaved \<lparr> stored = openedMedium, inflight = [] \<rparr>)) =
     [requestReport 7 (blightRequest Medium (AreaNumber 10)),
      followUp Medium (AreaNumber 5), followUp Medium (AreaNumber 5)]"
  "status
     (stored (run decimalNumbers accepted interleaved \<lparr> stored = openedMedium, inflight = [] \<rparr>)) =
     Contained"
  by (simp_all add: interleaved_def begin_report5 begin_status finish_first saveChanges_def
      openedMedium_document thresholdSeverity_def)

lemma interleaved_apart:
  "reportsApart decimalNumbers accepted interleaved \<lparr> stored = openedMedium, inflight = [] \<rparr>"
  by (simp add: interleaved_def begin_report5 begin_status finish_first saveChanges_def
      openedMedium_document thresholdSeverity_def reportInFlight_def)

theorem confirmedCases_is_report_count_witness:
  "newOutbreak decimalNumbers accepted 1 7 (blightRequest Medium (AreaNumber 10)) = Inr openedMedium \<and>
   reportsApart decimalNumbers accepted interleaved \<lparr> stored = openedMedium, inflight = [] \<rparr> \<and>
   confirmedCases
     (stored (run decimalNumbers accepted interleaved \<lparr> stored = openedMedium, inflight = [] \<rparr>)) = 3 \<and>
   length (reportedBy
     (stored (run decimalNumbers accepted interleaved \<lparr> stored = openedMedium, inflight = [] \<rparr>))) = 3 \<and>
   status (stored (run decimalNumbers accepted interleaved \<lparr> stored = openedMedium, inflight = [] \<rparr>)) =
     Contained"
proof -
  have h: "newOutbreak decimalNumbers accepted 1 7 (blightRequest Medium (AreaNumber 10)) =
      Inr openedMedium"
    using openedMedium_document(1) by (simp add: opened_def)
  have l: "length (reportedBy
     (stored (run decimalNumbers accepted interleaved \<lparr> stored = openedMedium, inflight = [] \<rparr>))) = 3"
    "status (stored (run decimalNumbers accepted interleaved \<lparr> stored = openedMedium, inflight = [] \<rparr>)) =
     Contained"
    by (simp_all add: interleaved_run openedMedium_document)
  from confirmedCases_is_report_count [OF h interleaved_apart] h interleaved_apart l
  show ?thesis by simp
qed

section \<open>Properties of the reconcilers\<close>


























text \<open>
  C10: when \<open>olderThan\<close> is absent or is anything but \<open>7d\<close>, \<open>30d\<close> or \<open>90d\<close> the
  request is served with a cutoff of 30 days (as it is for \<open>30d\<close> itself). Whatever the
  cutoff, the route deletes exactly the caller's own offline-tagged diagnoses older
  than it: every other record, among them every record that is not offline-tagged,
  stays in the store, and no profile changes.
\<close>

theorem clear_defaults_and_scope:
  "(olderThan \<notin> {Some ''7d'', Some ''90d''} \<longrightarrow>
      cutoff (fst (clearOld now olderThan uid st)) = now - days 30) \<and>
   diagnoses (snd (clearOld now olderThan uid st)) =
     filter (\<lambda>x. \<not> (cd_user x = uid \<and> cd_isOffline x \<and>
                      cd_createdAt x < cutoff (fst (clearOld now olderThan uid st))))
       (diagnoses st) \<and>
   deletedCount (fst (clearOld now olderThan uid st)) =
     length (filter (\<lambda>x. cd_user x = uid \<and> cd_isOffline x \<and>
                          cd_createdAt x < cutoff (fst (clearOld now olderThan uid st)))
       (diagnoses st)) \<and>
   users (snd (clearOld now olderThan uid st)) = users st"
proof -
  have default: "cutoffDate now olderThan = now - days 30"
    if "olderThan \<notin> {Some ''7d'', Some ''90d''}"
    using that by (cases olderThan) (auto simp: cutoffDate_def Let_def)
  have "clearable uid c = (\<lambda>x. cd_user x = uid \<and> cd_isOffline x \<and> cd_createdAt x < c)" for c
    by (auto simp: clearable_def fun_eq_iff)
  then show ?thesis
    using default by (simp add: clearOld_def Let_def)
qed

theorem clear_defaults_and_scope_witness:
  "Some ''1y'' \<notin> {Some ''7d'', Some ''90d''} \<and>
   cutoff (fst (clearOld (days 100) (Some ''1y'') 7 oldServer)) = days 70 \<and>
   diagnoses (snd (clearOld (days 100) (Some ''1y'') 7 oldServer)) =
     [storedDiagnosis 1 7 False, storedDiagnosis 2 8 True] \<and>
   deletedCount (fst (clearOld (days 100) (Some ''1y'') 7 oldServer)) = 1"
proof -
  have h: "Some ''1y'' \<notin> {Some ''7d'', Some ''90d''}"
    by simp
  have c: "cutoff (fst (clearOld (days 100) (Some ''1y'') 7 oldServer)) = days 70"
    using clear_defaults_and_scope [of "Some ''1y''" "days 100" 7 oldServer] h
    by (simp add: days_def)
  have d: "diagnoses oldServer =
      [storedDiagnosis 0 7 True, storedDiagnosis 1 7 False, storedDiagnosis 2 8 True]"
    by (simp add: oldServer_def)
  have f: "cd_user (storedDiagnosis i u off) = u" "cd_isOffline (storedDiagnosis i u off) = off"
    "cd_createdAt (storedDiagnosis i u off) = 0" for i u off
    by (simp_all add: storedDiagnosis_def)
  have pos: "(0::int) < days 70"
    by (simp add: days_def)
  from clear_defaults_and_scope [of "Some ''1y''" "days 100" 7 oldServer] h c
  show ?thesis
    by (simp add: d f pos)
qed

section \<open>Properties of the client's queue\<close>

lemma syncDataItem_frame:
  "requests (snd (syncDataItem deliver item s)) = requests s @ [item]"
  "fst (syncDataItem deliver item s) = deliver item"
  "isOnline (snd (syncDataItem deliver item s)) = isOnline s"
  "dbOpen (snd (syncDataItem deliver item s)) = dbOpen s"
  "pendingSync (snd (syncDataItem deliver item s)) = pendingSync s"
  by (simp_all add: syncDataItem_def Let_def)

lemma syncEach_requests:
  "requests (snd (syncEach deliver items s)) = requests s @ items"
  by (induction items arbitrary: s) (simp_all add: case_prod_beta syncDataItem_frame)

lemma syncEach_results:
  "fst (syncEach deliver items s) = map (\<lambda>item. (item, deliver item)) items"
  by (induction items arbitrary: s) (simp_all add: case_prod_beta syncDataItem_frame)

lemma syncPendingData_requests:
  assumes "isOnline s" and "dbOpen s"
  shows "requests (syncPendingData deliver s) = requests s @ pendingSync s"
  using assms by (simp add: syncPendingData_def case_prod_beta syncEach_requests)

text \<open>
  The drain path keeps what it could not deliver: the pending list after
  \<open>syncPendingData\<close> holds exactly the records whose request failed.
\<close>

lemma syncPendingData_keeps_failed:
  assumes "isOnline s" and "dbOpen s"
  shows "pendingSync (syncPendingData deliver s) = filter (\<lambda>item. \<not> deliver item) (pendingSync s)"
proof -
  have "map fst (filter (\<lambda>result. \<not> snd result) (map (\<lambda>item. (item, deliver item)) xs)) =
        filter (\<lambda>item. \<not> deliver item) xs" for xs
    by (induction xs) simp_all
  with assms show ?thesis
    by (simp add: syncPendingData_def case_prod_beta syncEach_results)
qed

lemma sorted_db_add:
  assumes "sorted (map od_id store)" and "db_add r store = Inr store'"
  shows "sorted (map od_id store')"
  using assms by (auto simp: db_add_def sorted_insort_key split: if_splits)

lemma sorted_db_delete:
  "sorted (map od_id store) \<Longrightarrow> sorted (map od_id (db_delete k store))"
  unfolding db_delete_def by (rule sorted_filter)

lemma syncDataItem_pendingStore_sorted:
  "sorted (map od_id (pendingStore s)) \<Longrightarrow>
   sorted (map od_id (pendingStore (snd (syncDataItem deliver item s))))"
  by (simp add: syncDataItem_def Let_def sorted_db_delete)

lemma syncEach_pendingStore_sorted:
  "sorted (map od_id (pendingStore s)) \<Longrightarrow>
   sorted (map od_id (pendingStore (snd (syncEach deliver items s))))"
  by (induction items arbitrary: s)
     (simp_all add: case_prod_beta syncDataItem_pendingStore_sorted)

text \<open>
  The pending store stays in the order of its keys under every operation of the
  provider.
\<close>

lemma pendingStore_sorted:
  assumes "sorted (map od_id (pendingStore s))"
  shows "sorted (map od_id (pendingStore (saveOfflineData deliver now suffix type data s)))"
    and "sorted (map od_id (pendingStore (syncPendingData deliver s)))"
proof -
  show "sorted (map od_id (pendingStore (saveOfflineData deliver now suffix type data s)))"
    using assms
    by (auto simp: saveOfflineData_def Let_def syncDataItem_pendingStore_sorted
        split: sum.splits intro: sorted_db_add)
  show "sorted (map od_id (pendingStore (syncPendingData deliver s)))"
    using assms
    by (simp add: syncPendingData_def case_prod_beta syncEach_pendingStore_sorted)
qed

lemma distinct_db_add:
  assumes "distinct (map od_id store)" and "db_add r store = Inr store'"
  shows "distinct (map od_id store')"
proof -
  from assms(2) have new: "od_id r \<notin> od_id ` set store" and s: "store' = insort_key od_id r store"
    by (auto simp: db_add_def split: if_splits)
  have "distinct (map od_id (insort_key od_id r xs))"
    if "distinct (map od_id xs)" and "od_id r \<notin> od_id ` set xs" for xs
    using that by (induction xs) (auto simp: set_insort_key)
  with assms(1) new s show ?thesis by simp
qed

lemma distinct_db_delete:
  "distinct (map od_id store) \<Longrightarrow> distinct (map od_id (db_delete k store))"
  unfolding db_delete_def by (rule distinct_map_filter)

lemma syncDataItem_pendingStore_distinct:
  "distinct (map od_id (pendingStore s)) \<Longrightarrow>
   distinct (map od_id (pendingStore (snd (syncDataItem deliver item s))))"
  by (simp add: syncDataItem_def Let_def distinct_db_delete)

lemma syncEach_pendingStore_distinct:
  "distinct (map od_id (pendingStore s)) \<Longrightarrow>
   distinct (map od_id (pendingStore (snd (syncEach deliver items s))))"
  by (induction items arbitrary: s)
     (simp_all add: case_prod_beta syncDataItem_pendingStore_distinct)

lemma pendingStore_distinct:
  assumes "distinct (map od_id (pendingStore s))"
  shows "distinct (map od_id (pendingStore (saveOfflineData deliver now suffix type data s)))"
    and "distinct (map od_id (pendingStore (syncPendingData deliver s)))"
proof -
  show "distinct (map od_id (pendingStore (saveOfflineData deliver now suffix type data s)))"
    using assms
    by (auto simp: saveOfflineData_def Let_def syncDataItem_pendingStore_distinct
        split: sum.splits intro: distinct_db_add)
  show "distinct (map od_id (pendingStore (syncPendingData deliver s)))"
    using assms
    by (simp add: syncPendingData_def case_prod_beta syncEach_pendingStore_distinct)
qed

lemma clearSyncedData_unchanged: "clearSyncedData now s = s"
  by (simp add: clearSyncedData_def IDBKeyRange_only_def)

lemma pendingStore_frame:
  "pendingStore (mount s) = pendingStore s"
  "pendingStore (toggleOnlineMode s) = pendingStore s"
  "pendingStore (onlineEvent s) = pendingStore s"
  "pendingStore (offlineEvent s) = pendingStore s"
  by (simp_all add: mount_def toggleOnlineMode_def initDB_def onlineEvent_def offlineEvent_def
      handleOnline_def handleOffline_def Let_def)

text \<open>
  In every state the provider reaches, the pending store is in strictly ascending
  order of its keys.
\<close>

lemma reachable_pendingStore:
  assumes "reachableClient s"
  shows "sorted_wrt (<) (map od_id (pendingStore s))"
proof -
  from assms have "sorted (map od_id (pendingStore s)) \<and> distinct (map od_id (pendingStore s))"
  proof (induction rule: reachableClient.induct)
    case (first_mount up)
    show ?case by (simp add: mount_def)
  next
    case (saved s deliver now suffix type data)
    then show ?case by (simp add: pendingStore_sorted pendingStore_distinct)
  next
    case (drained s deliver)
    then show ?case by (simp add: pendingStore_sorted pendingStore_distinct)
  next
    case (pruned s now)
    then show ?case by (simp add: clearSyncedData_unchanged)
  next
    case (toggled s)
    then show ?case by (simp add: pendingStore_frame)
  next
    case (went_online s)
    then show ?case by (simp add: pendingStore_frame)
  next
    case (went_offline s)
    then show ?case by (simp add: pendingStore_frame)
  next
    case (reloaded s)
    then show ?case by (simp add: pendingStore_frame)
  qed
  then show ?thesis by (simp add: strict_sorted_iff)
qed

text \<open>The mount and a toggle load the pending list from the store.\<close>

lemma reload_pendingSync:
  "pendingSync (mount s) = pendingStore s"
  "pendingSync (toggleOnlineMode s) = pendingStore s"
  by (simp_all add: mount_def toggleOnlineMode_def initDB_def Let_def)

text \<open>Offline, a record saved under a new id goes to the end of the pending list.\<close>

lemma saveOfflineData_offline_appends:
  assumes "\<not> isOnline s" and "dbOpen s"
      and "newId type now suffix \<notin> set (map od_id (offlineStore s))"
      and "newId type now suffix \<notin> set (map od_id (pendingStore s))"
  shows "pendingSync (saveOfflineData deliver now suffix type data s) =
           pendingSync s @
           [\<lparr> od_id = newId type now suffix, od_type = type, od_data = data,
              od_timestamp = now, od_synced = False \<rparr>]"
  using assms by (simp add: saveOfflineData_def db_add_def Let_def)

lemma newId_records:
  "newId ''market'' 1000 ''k3x9q2mzp'' = od_id marketRecord"
  "newId ''diagnosis'' 2000 ''a81bc0d4e'' = od_id diagnosisRecord"
  by (simp_all add: newId_def marketRecord_def diagnosisRecord_def)

lemma record_keys:
  "od_id diagnosisRecord < od_id marketRecord"
  "od_id diagnosisRecord \<noteq> od_id marketRecord"
  "od_id marketRecord \<noteq> od_id diagnosisRecord"
  by (simp_all add: marketRecord_def diagnosisRecord_def)

lemma new_records:
  "\<lparr> od_id = od_id marketRecord, od_type = ''market'', od_data = JNull,
     od_timestamp = 1000, od_synced = False \<rparr> = marketRecord"
  "\<lparr> od_id = od_id diagnosisRecord, od_type = ''diagnosis'', od_data = JNull,
     od_timestamp = 2000, od_synced = False \<rparr> = diagnosisRecord"
  by (simp_all add: marketRecord_def diagnosisRecord_def)

lemma oneSavedOffline:
  "saveOfflineData (\<lambda>item. False) 1000 ''k3x9q2mzp'' ''market'' JNull offlineClient =
     offlineClient\<lparr> offlineStore := [marketRecord], pendingStore := [marketRecord],
                    pendingSync := [marketRecord] \<rparr>"
  by (simp add: saveOfflineData_def offlineClient_def onlineClient_def db_add_def
      newId_records new_records Let_def)

lemma twoSavedOffline_state:
  "twoSavedOffline =
     offlineClient\<lparr> offlineStore := [diagnosisRecord, marketRecord],
                    pendingStore := [diagnosisRecord, marketRecord],
                    pendingSync := [marketRecord, diagnosisRecord] \<rparr>"
  unfolding twoSavedOffline_def oneSavedOffline
  using record_keys
  by (simp add: saveOfflineData_def offlineClient_def onlineClient_def db_add_def
      newId_records new_records Let_def)

lemma early_record:
  "newId ''market'' 999 ''p0o9i8u7y'' = od_id earlyMarketRecord"
  "\<lparr> od_id = od_id earlyMarketRecord, od_type = ''market'', od_data = JNull,
     od_timestamp = 999, od_synced = False \<rparr> = earlyMarketRecord"
  "od_id marketRecord < od_id earlyMarketRecord"
  "od_id diagnosisRecord < od_id earlyMarketRecord"
  "od_id marketRecord \<noteq> od_id earlyMarketRecord"
  "od_id diagnosisRecord \<noteq> od_id earlyMarketRecord"
  by (simp_all add: newId_def earlyMarketRecord_def marketRecord_def diagnosisRecord_def)

lemma threeSavedOffline_state:
  "threeSavedOffline =
     offlineClient\<lparr> offlineStore := [diagnosisRecord, marketRecord, earlyMarketRecord],
                    pendingStore := [diagnosisRecord, marketRecord, earlyMarketRecord],
                    pendingSync := [earlyMarketRecord, marketRecord, diagnosisRecord] \<rparr>"
proof -
  have one: "saveOfflineData (\<lambda>item. False) 999 ''p0o9i8u7y'' ''market'' JNull offlineClient =
      offlineClient\<lparr> offlineStore := [earlyMarketRecord], pendingStore := [earlyMarketRecord],
                     pendingSync := [earlyMarketRecord] \<rparr>"
    by (simp add: saveOfflineData_def offlineClient_def onlineClient_def db_add_def
        early_record Let_def)
  have two: "saveOfflineData (\<lambda>item. False) 1000 ''k3x9q2mzp'' ''market'' JNull
        (offlineClient\<lparr> offlineStore := [earlyMarketRecord], pendingStore := [earlyMarketRecord],
                     pendingSync := [earlyMarketRecord] \<rparr>) =
      offlineClient\<lparr> offlineStore := [marketRecord, earlyMarketRecord],
                     pendingStore := [marketRecord, earlyMarketRecord],
                     pendingSync := [earlyMarketRecord, marketRecord] \<rparr>"
    using early_record(3,5)
    by (simp add: saveOfflineData_def offlineClient_def onlineClient_def db_add_def
        newId_records new_records Let_def)
  show ?thesis
    unfolding threeSavedOffline_def one two
    using record_keys early_record(4,6)
    by (simp add: saveOfflineData_def offlineClient_def onlineClient_def db_add_def
        newId_records new_records Let_def)
qed

lemma offlineClient_first_mount:
  "offlineClient =
     mount \<lparr> isOnline = False, forceOffline = False, navigatorOnLine = False, dbOpen = False,
             offlineStore = [], pendingStore = [], pendingSync = [], requests = [] \<rparr>"
  by (simp add: offlineClient_def onlineClient_def mount_def)

lemma savedOnlineFailed_state:
  "savedOnlineFailed =
     onlineClient\<lparr> offlineStore := [diagnosisRecord], requests := [diagnosisRecord] \<rparr>"
  by (simp add: savedOnlineFailed_def saveOfflineData_def onlineClient_def db_add_def
      newId_records new_records syncDataItem_def Let_def)


text \<open>
  The online branch of \<open>saveOfflineData\<close> drops the outcome of the request: when it
  fails, the new record is in the offline store only, and the pending store and the
  pending list are as before.
\<close>

lemma saveOfflineData_online_failure:
  assumes "isOnline s" and "dbOpen s"
      and "\<not> deliver \<lparr> od_id = newId type now suffix, od_type = type, od_data = data,
                        od_timestamp = now, od_synced = False \<rparr>"
  shows "pendingSync (saveOfflineData deliver now suffix type data s) = pendingSync s"
    and "pendingStore (saveOfflineData deliver now suffix type data s) = pendingStore s"
  using assms
  by (simp_all add: saveOfflineData_def syncDataItem_def Let_def split: sum.splits)

lemma savedForcedOffline_state:
  "savedForcedOffline =
     onlineClient\<lparr> isOnline := False, forceOffline := True,
                   offlineStore := [marketRecord], pendingStore := [marketRecord],
                   pendingSync := [marketRecord] \<rparr>"
  by (simp add: savedForcedOffline_def toggleOnlineMode_def initDB_def saveOfflineData_def
      onlineClient_def db_add_def newId_records new_records Let_def)

text \<open>
  C3 at a failing input: the client is online, a diagnosis is saved and its request
  fails. The record is in the offline store, not synced, and in neither the pending
  store nor the pending list; a later drain with a working network posts nothing for
  it, and the pending list loaded at the next mount does not hold it.
\<close>

theorem failed_immediate_delivery_not_queued:
  "requests savedOnlineFailed = [diagnosisRecord] \<and>
   offlineStore savedOnlineFailed = [diagnosisRecord] \<and>
   od_synced diagnosisRecord = False \<and>
   pendingStore savedOnlineFailed = [] \<and>
   pendingSync savedOnlineFailed = [] \<and>
   requests (syncPendingData (\<lambda>item. True) savedOnlineFailed) = [diagnosisRecord] \<and>
   pendingSync (mount savedOnlineFailed) = []"
  by (simp add: savedOnlineFailed_state onlineClient_def syncPendingData_def mount_def
      diagnosisRecord_def)

text \<open>
  C4, as stated, fails: a market record saved at time 1000 and a diagnosis saved at
  time 2000, both offline, are posted after the next page load with the diagnosis first,
  since the pending store returns its records by id and the id starts with the type.
\<close>

theorem drain_not_in_creation_order:
  "map od_timestamp
     (requests (syncPendingData (\<lambda>item. True) (mount (twoSavedOffline\<lparr> navigatorOnLine := True \<rparr>)))) =
     [2000, 1000] \<and>
   \<not> sorted (map od_timestamp
     (requests (syncPendingData (\<lambda>item. True) (mount (twoSavedOffline\<lparr> navigatorOnLine := True \<rparr>)))))"
proof -
  have m: "mount (twoSavedOffline\<lparr> navigatorOnLine := True \<rparr>) =
      onlineClient\<lparr> offlineStore := [diagnosisRecord, marketRecord],
                    pendingStore := [diagnosisRecord, marketRecord],
                    pendingSync := [diagnosisRecord, marketRecord] \<rparr>"
    by (simp add: twoSavedOffline_state mount_def offlineClient_def onlineClient_def)
  have "requests (syncPendingData (\<lambda>item. True) (mount (twoSavedOffline\<lparr> navigatorOnLine := True \<rparr>))) =
      [diagnosisRecord, marketRecord]"
    unfolding m by (simp add: syncPendingData_requests onlineClient_def)
  then show ?thesis
    by (simp add: diagnosisRecord_def marketRecord_def)
qed

text \<open>
  C4, amended: a drain of a client that is online with its database open posts one
  request per record of the in-memory pending list, in the order of that list;
  otherwise it posts nothing. The list is loaded from the pending store at every mount
  and again after every toggle of the forced offline mode, in the order of the store,
  and in every state the provider reaches the store holds its records in strictly
  ascending order of their ids, compared as strings. A record saved offline under a new
  id is appended to the list. An id is the type, the decimal digits of the time and a
  random suffix, joined by underscores, so the order of the store is not the order of
  creation: the id of a diagnosis comes before the id of a market record whatever their
  times, and the id of a market record of time 1000 before that of one of time 999.
\<close>

theorem drain_follows_pending_list:
  assumes "reachableClient s"
  shows "(isOnline s \<and> dbOpen s \<longrightarrow>
            requests (syncPendingData deliver s) = requests s @ pendingSync s) \<and>
         (\<not> (isOnline s \<and> dbOpen s) \<longrightarrow> requests (syncPendingData deliver s) = requests s) \<and>
         pendingSync (mount s) = pendingStore s \<and>
         pendingSync (toggleOnlineMode s) = pendingStore s \<and>
         sorted_wrt (<) (map od_id (pendingStore s)) \<and>
         (\<not> isOnline s \<and> dbOpen s \<and>
          newId type now suffix \<notin> set (map od_id (offlineStore s)) \<and>
          newId type now suffix \<notin> set (map od_id (pendingStore s)) \<longrightarrow>
            pendingSync (saveOfflineData deliver' now suffix type data s) =
              pendingSync s @
              [\<lparr> od_id = newId type now suffix, od_type = type, od_data = data,
                 od_timestamp = now, od_synced = False \<rparr>]) \<and>
         newId type now suffix = type @ ''_'' @ showNat (nat now) @ ''_'' @ suffix \<and>
         newId ''diagnosis'' t1 suffix1 < newId ''market'' t2 suffix2 \<and>
         newId ''market'' 1000 suffix1 < newId ''market'' 999 suffix2"
proof -
  have posts: "isOnline s \<and> dbOpen s \<longrightarrow>
      requests (syncPendingData deliver s) = requests s @ pendingSync s"
    by (simp add: syncPendingData_requests)
  have idle: "\<not> (isOnline s \<and> dbOpen s) \<longrightarrow> requests (syncPendingData deliver s) = requests s"
    by (auto simp: syncPendingData_def)
  have appended: "\<not> isOnline s \<and> dbOpen s \<and>
      newId type now suffix \<notin> set (map od_id (offlineStore s)) \<and>
      newId type now suffix \<notin> set (map od_id (pendingStore s)) \<longrightarrow>
        pendingSync (saveOfflineData deliver' now suffix type data s) =
          pendingSync s @
          [\<lparr> od_id = newId type now suffix, od_type = type, od_data = data,
             od_timestamp = now, od_synced = False \<rparr>]"
    using saveOfflineData_offline_appends [of s type now suffix deliver' data] by blast
  have ids: "newId type now suffix = type @ ''_'' @ showNat (nat now) @ ''_'' @ suffix"
    "newId ''diagnosis'' t1 suffix1 < newId ''market'' t2 suffix2"
    "newId ''market'' 1000 suffix1 < newId ''market'' 999 suffix2"
    by (simp_all add: newId_def)
  from posts idle appended ids reload_pendingSync [of s] reachable_pendingStore [OF assms]
  show ?thesis by - (intro conjI; assumption)
qed

theorem drain_follows_pending_list_witness:
  "reachableClient reloadedOnline \<and> isOnline reloadedOnline \<and> dbOpen reloadedOnline \<and>
   pendingSync threeSavedOffline = [earlyMarketRecord, marketRecord, diagnosisRecord] \<and>
   pendingStore reloadedOnline = [diagnosisRecord, marketRecord, earlyMarketRecord] \<and>
   pendingSync reloadedOnline = [diagnosisRecord, marketRecord, earlyMarketRecord] \<and>
   requests (syncPendingData (\<lambda>item. False) reloadedOnline) =
     [diagnosisRecord, marketRecord, earlyMarketRecord] \<and>
   map od_timestamp (requests (syncPendingData (\<lambda>item. False) reloadedOnline)) =
     [2000, 1000, 999] \<and>
   sorted_wrt (<) (map od_id (pendingStore reloadedOnline)) \<and>
   pendingSync (toggleOnlineMode reloadedOnline) = pendingStore reloadedOnline"
proof -
  have r: "reachableClient reloadedOnline"
    unfolding reloadedOnline_def threeSavedOffline_def offlineClient_first_mount
    by (intro reachableClient.intros)
  have v: "isOnline reloadedOnline" "dbOpen reloadedOnline" "requests reloadedOnline = []"
    "pendingStore reloadedOnline = [diagnosisRecord, marketRecord, earlyMarketRecord]"
    "pendingSync reloadedOnline = [diagnosisRecord, marketRecord, earlyMarketRecord]"
    "pendingSync threeSavedOffline = [earlyMarketRecord, marketRecord, diagnosisRecord]"
    by (simp_all add: reloadedOnline_def threeSavedOffline_state mount_def onlineEvent_def
        handleOnline_def offlineClient_def onlineClient_def)
  from drain_follows_pending_list [OF r, of "\<lambda>item. False"] r
  show ?thesis
    by (simp add: v earlyMarketRecord_def marketRecord_def diagnosisRecord_def)
qed

lemma handlers_post_nothing:
  "requests (handleOnline s) = requests s"
  "requests (handleOffline s) = requests s"
  "requests (toggleOnlineMode s) = requests s"
  "pendingSync (handleOnline s) = pendingSync s"
  by (simp_all add: handleOnline_def handleOffline_def toggleOnlineMode_def initDB_def Let_def)

text \<open>
  C5 at a failing input: two records are pending when the browser's \<open>online\<close> event
  brings \<open>isOnline\<close> from false to true, and a record is pending when the user clears
  the forced offline mode. Both transitions post nothing and leave the records in the
  pending list; a drain from the state they reach would have posted them.
\<close>

theorem online_transition_starts_no_drain:
  "isOnline twoSavedOffline = False \<and>
   isOnline (onlineEvent twoSavedOffline) = True \<and>
   requests (onlineEvent twoSavedOffline) = [] \<and>
   pendingSync (onlineEvent twoSavedOffline) = [marketRecord, diagnosisRecord] \<and>
   requests (syncPendingData (\<lambda>item. True) (onlineEvent twoSavedOffline)) =
     [marketRecord, diagnosisRecord] \<and>
   isOnline savedForcedOffline = False \<and>
   isOnline (toggleOnlineMode savedForcedOffline) = True \<and>
   requests (toggleOnlineMode savedForcedOffline) = [] \<and>
   pendingSync (toggleOnlineMode savedForcedOffline) = [marketRecord] \<and>
   requests (syncPendingData (\<lambda>item. True) (toggleOnlineMode savedForcedOffline)) = [marketRecord]"
proof -
  have a: "isOnline (onlineEvent twoSavedOffline)" "dbOpen (onlineEvent twoSavedOffline)"
    "requests (onlineEvent twoSavedOffline) = []"
    "pendingSync (onlineEvent twoSavedOffline) = [marketRecord, diagnosisRecord]"
    "isOnline twoSavedOffline = False"
    by (simp_all add: twoSavedOffline_state onlineEvent_def handleOnline_def offlineClient_def
        onlineClient_def)
  have b: "isOnline (toggleOnlineMode savedForcedOffline)" "dbOpen (toggleOnlineMode savedForcedOffline)"
    "requests (toggleOnlineMode savedForcedOffline) = []"
    "pendingSync (toggleOnlineMode savedForcedOffline) = [marketRecord]"
    "isOnline savedForcedOffline = False"
    by (simp_all add: savedForcedOffline_state toggleOnlineMode_def initDB_def onlineClient_def
        Let_def)
  show ?thesis
    by (simp add: syncPendingData_requests a b)
qed

lemma syncedIndex_empty: "syncedIndex_getAll k store = []"
  by (simp add: syncedIndex_getAll_def)

text \<open>
  What the loop of \<open>clearSyncedData\<close> does with the items it is given: it deletes the
  records with the ids of the items older than seven days, and nothing else.
\<close>

lemma deleteOld_filter:
  "deleteOld now items store =
     filter (\<lambda>x. od_id x \<notin> od_id ` {item \<in> set items. od_timestamp item < now - days 7}) store"
proof (induction items arbitrary: store)
  case Nil
  show ?case by simp
next
  case (Cons item items)
  show ?case
    by (auto simp: Cons.IH Let_def days_def db_delete_def intro!: filter_cong)
qed

text \<open>
  Given the synced records of a store with distinct keys, the loop would delete the
  synced records older than seven days and keep all others.
\<close>

lemma deleteOld_synced_items:
  assumes "distinct (map od_id store)"
  shows "deleteOld now (filter od_synced store) store =
           filter (\<lambda>x. \<not> (od_synced x \<and> od_timestamp x < now - days 7)) store"
proof -
  from assms have inj: "inj_on od_id (set store)"
    by (simp add: distinct_map)
  have "od_id x \<notin> od_id ` {item \<in> set (filter od_synced store). od_timestamp item < now - days 7}
        \<longleftrightarrow> \<not> (od_synced x \<and> od_timestamp x < now - days 7)"
    if "x \<in> set store" for x
    using that inj by (auto dest: inj_onD)
  then show ?thesis
    unfolding deleteOld_filter by (auto intro: filter_cong)
qed

text \<open>
  C8 at a failing input: the offline store holds a record that is synced and eight
  days old. \<open>clearSyncedData\<close> leaves it in the store: the key range over \<open>true\<close>
  cannot be built, the exception is caught, and nothing is deleted.
\<close>

theorem prune_deletes_nothing:
  "od_synced oldSynced \<and>
   od_timestamp oldSynced < days 10 - days 7 \<and>
   oldSynced \<in> set (offlineStore prunableClient) \<and>
   offlineStore (clearSyncedData (days 10) prunableClient) = offlineStore prunableClient"
  by (simp add: clearSyncedData_def IDBKeyRange_only_def oldSynced_def prunableClient_def
      onlineClient_def days_def)

end
